theory Spec2Isabelle
  imports Main
begin

section \<open>Strings\<close>

text \<open>
  A Python \<open>str\<close> is modelled as a \<^typ>\<open>string\<close> whose characters are read as the code
  points 0 to 255. On these code points \<open>str.lower\<close>, \<open>str.strip\<close> and the
  regular-expression classes \<open>\d\<close> and \<open>\w\<close> are as defined below.
\<close>

definition code_point :: "char \<Rightarrow> nat" where
  "code_point c = of_char c"

definition lower_char :: "char \<Rightarrow> char" where
  "lower_char c =
     (let n = code_point c
      in if (65 \<le> n \<and> n \<le> 90) \<or> (192 \<le> n \<and> n \<le> 222 \<and> n \<noteq> 215)
         then char_of (n + 32) else c)"

definition lower :: "string \<Rightarrow> string" where
  "lower s = map lower_char s"

definition is_space :: "char \<Rightarrow> bool" where
  "is_space c =
     (let n = code_point c
      in (9 \<le> n \<and> n \<le> 13) \<or> (28 \<le> n \<and> n \<le> 32) \<or> n = 133 \<or> n = 160)"

definition strip :: "string \<Rightarrow> string" where
  "strip s = rev (dropWhile is_space (rev (dropWhile is_space s)))"

definition startswith :: "string \<Rightarrow> string \<Rightarrow> bool" where
  "startswith s p = (take (length p) s = p)"

text \<open>\<open>py_in x s\<close> is Python's \<open>x in s\<close> on strings: \<open>x\<close> occurs in \<open>s\<close> as a substring.\<close>

fun py_in :: "string \<Rightarrow> string \<Rightarrow> bool" where
  "py_in x [] = (x = [])"
| "py_in x (c # s) = (startswith (c # s) x \<or> py_in x s)"

section \<open>Static tables\<close>

record region_entry =
  pincode_prefix :: string
  region_label :: string

definition REGIONS_CACHE :: "region_entry list" where
  "REGIONS_CACHE =
     [\<lparr>pincode_prefix = ''5600xx'', region_label = ''Bengaluru Urban''\<rparr>,
      \<lparr>pincode_prefix = ''4000xx'', region_label = ''Mumbai Suburban''\<rparr>,
      \<lparr>pincode_prefix = ''1100xx'', region_label = ''Delhi''\<rparr>]"

section \<open>Pincode lookup with retry and fallback\<close>

text \<open>
  The lookup service is outside the program. One call of \<open>requests.get\<close> either raises a
  \<open>RequestException\<close> (transport failure, timeout) or returns a response with a status
  code and a body, which \<open>resp.json()\<close> decodes; a body that is not JSON makes
  \<open>resp.json()\<close> raise the \<open>JSONDecodeError\<close> of \<open>requests\<close>, itself a
  \<open>RequestException\<close>, so that outcome is \<open>RequestException\<close> too. The outcome of the
  \<open>k\<close>-th call is \<open>fetch k\<close>; the per-call timeout only decides which outcome occurs.
\<close>

datatype py_error = TypeError | IndexError | AttributeError | KeyError

text \<open>A decoded JSON value. An object is given by its key/value pairs, each key once. Of
  a number the code below observes only whether it is zero, so numbers are kept as
  integers.\<close>

datatype json =
  JNull | JBool bool | JNum int | JStr string | JArr "json list" | JObj "(string \<times> json) list"

datatype http_outcome = RequestException | Response nat json

text \<open>Python's truth value of a decoded value, as tested by \<open>if places\<close>.\<close>

fun json_truthy :: "json \<Rightarrow> bool" where
  "json_truthy JNull = False"
| "json_truthy (JBool b) = b"
| "json_truthy (JNum n) = (n \<noteq> 0)"
| "json_truthy (JStr s) = (s \<noteq> [])"
| "json_truthy (JArr xs) = (xs \<noteq> [])"
| "json_truthy (JObj kvs) = (kvs \<noteq> [])"

text \<open>\<open>v.get(key, dflt)\<close>: only a \<open>dict\<close> has the method, any other value raises
  \<open>AttributeError\<close>.\<close>

fun json_get :: "json \<Rightarrow> string \<Rightarrow> json \<Rightarrow> py_error + json" where
  "json_get (JObj kvs) key dflt = Inr (case map_of kvs key of None \<Rightarrow> dflt | Some v \<Rightarrow> v)"
| "json_get JNull key dflt = Inl AttributeError"
| "json_get (JBool b) key dflt = Inl AttributeError"
| "json_get (JNum n) key dflt = Inl AttributeError"
| "json_get (JStr s) key dflt = Inl AttributeError"
| "json_get (JArr xs) key dflt = Inl AttributeError"

text \<open>\<open>v[0]\<close>: the first element of a list, the first character of a string; a \<open>dict\<close>
  has no key \<open>0\<close> (its keys are strings), and \<open>None\<close>, booleans and numbers are not
  subscriptable.\<close>

fun json_first :: "json \<Rightarrow> py_error + json" where
  "json_first (JArr []) = Inl IndexError"
| "json_first (JArr (x # xs)) = Inr x"
| "json_first (JStr []) = Inl IndexError"
| "json_first (JStr (c # s)) = Inr (JStr [c])"
| "json_first (JObj kvs) = Inl KeyError"
| "json_first JNull = Inl TypeError"
| "json_first (JBool b) = Inl TypeError"
| "json_first (JNum n) = Inl TypeError"

text \<open>\<open>v.strip()\<close>: only a \<open>str\<close> has the method.\<close>

fun json_strip :: "json \<Rightarrow> py_error + string" where
  "json_strip (JStr s) = Inr (strip s)"
| "json_strip JNull = Inl AttributeError"
| "json_strip (JBool b) = Inl AttributeError"
| "json_strip (JNum n) = Inl AttributeError"
| "json_strip (JArr xs) = Inl AttributeError"
| "json_strip (JObj kvs) = Inl AttributeError"

text \<open>The \<open>for r in REGIONS_CACHE\<close> loop of the success branch: the first entry whose
  lower-cased label occurs in the lower-cased state or place name.\<close>

fun map_to_cached :: "region_entry list \<Rightarrow> string \<Rightarrow> string \<Rightarrow> string option" where
  "map_to_cached [] st pn = None"
| "map_to_cached (r # rs) st pn =
     (let lab = lower (region_label r)
      in if py_in lab (lower st) \<or> py_in lab (lower pn) then Some (region_label r)
         else map_to_cached rs st pn)"

text \<open>The value returned from the success branch once \<open>state\<close> and \<open>place_name\<close> are
  bound: the mapped label, else \<open>state or place_name or "Unknown"\<close>.\<close>

definition region_of :: "string \<Rightarrow> string \<Rightarrow> string" where
  "region_of st pn =
     (case map_to_cached REGIONS_CACHE st pn of
        Some l \<Rightarrow> l
      | None \<Rightarrow> (if st \<noteq> [] then st else if pn \<noteq> [] then pn else ''Unknown''))"

text \<open>The body of the \<open>try\<close> statement for one outcome of \<open>requests.get\<close>. \<open>Inr (Some l)\<close>
  is \<open>return l\<close>; \<open>Inr None\<close> is reaching \<open>attempts += 1\<close>, which a \<open>RequestException\<close>
  does through the \<open>except\<close> clause; \<open>Inl e\<close> is an exception the \<open>except\<close> clause does
  not catch, which leaves \<open>lookup_region\<close>.\<close>

definition attempt_once :: "http_outcome \<Rightarrow> py_error + string option" where
  "attempt_once out =
     (case out of
        RequestException \<Rightarrow> Inr None
      | Response status_code js \<Rightarrow>
          (if status_code = 200 then
             (case json_get js ''places'' (JArr []) of
                Inl e \<Rightarrow> Inl e
              | Inr places \<Rightarrow>
                  (if json_truthy places then
                     (case json_first places of
                        Inl e \<Rightarrow> Inl e
                      | Inr p \<Rightarrow>
                          (case json_get p ''state'' (JStr []) of
                             Inl e \<Rightarrow> Inl e
                           | Inr sv \<Rightarrow>
                               (case json_strip sv of
                                  Inl e \<Rightarrow> Inl e
                                | Inr st \<Rightarrow>
                                    (case json_get p ''place name'' (JStr []) of
                                       Inl e \<Rightarrow> Inl e
                                     | Inr pv \<Rightarrow>
                                         (case json_strip pv of
                                            Inl e \<Rightarrow> Inl e
                                          | Inr pn \<Rightarrow> Inr (Some (region_of st pn)))))))
                   else Inr None))
           else Inr None))"

text \<open>The \<open>while attempts <= retries\<close> loop. \<open>Inr (Some l)\<close> is a \<open>return l\<close> from inside
  the loop, \<open>Inr None\<close> is leaving the loop with the retry budget used up, \<open>Inl e\<close> is an
  uncaught exception.\<close>

function lookup_attempts ::
  "(nat \<Rightarrow> http_outcome) \<Rightarrow> int \<Rightarrow> nat \<Rightarrow> py_error + string option"
where
  "lookup_attempts fetch retries attempts =
     (if int attempts \<le> retries then
        (case attempt_once (fetch attempts) of
           Inl e \<Rightarrow> Inl e
         | Inr None \<Rightarrow> lookup_attempts fetch retries (attempts + 1)
         | Inr (Some l) \<Rightarrow> Inr (Some l))
      else Inr None)"
  by pat_completeness auto
termination
  by (relation "measure (\<lambda>(fetch, retries, attempts). nat (retries + 1 - int attempts))") auto

declare lookup_attempts.simps [simp del]

text \<open>The fallback loop over the cached mapping by prefix.\<close>

fun prefix_fallback :: "region_entry list \<Rightarrow> string \<Rightarrow> string" where
  "prefix_fallback [] pincode = ''Unknown''"
| "prefix_fallback (r # rs) pincode =
     (let prefix = take 4 (pincode_prefix r)
      in if startswith pincode (take (length prefix) prefix) then region_label r
         else prefix_fallback rs pincode)"

definition lookup_region :: "(nat \<Rightarrow> http_outcome) \<Rightarrow> string \<Rightarrow> int \<Rightarrow> py_error + string" where
  "lookup_region fetch pincode retries =
     (case lookup_attempts fetch retries 0 of
        Inl e \<Rightarrow> Inl e
      | Inr (Some l) \<Rightarrow> Inr l
      | Inr None \<Rightarrow> Inr (prefix_fallback REGIONS_CACHE pincode))"


text \<open>
  The response the lookup service documents: an object whose \<open>places\<close>, when present, is
  a list of place records, each an object that optionally carries a string under
  \<open>state\<close> and under \<open>place name\<close> (other keys are not read). \<open>places_of\<close> reads the place
  records off such a body and is \<open>None\<close> on every other body.
\<close>

record place =
  state :: "string option"
  place_name :: "string option"

definition text_field :: "(string \<times> json) list \<Rightarrow> string \<Rightarrow> string option option" where
  "text_field kvs key =
     (case map_of kvs key of
        None \<Rightarrow> Some None
      | Some v \<Rightarrow> (case v of JStr s \<Rightarrow> Some (Some s) | _ \<Rightarrow> None))"

definition place_of :: "json \<Rightarrow> place option" where
  "place_of v =
     (case v of
        JObj kvs \<Rightarrow>
          (case text_field kvs ''state'' of
             None \<Rightarrow> None
           | Some st \<Rightarrow>
               (case text_field kvs ''place name'' of
                  None \<Rightarrow> None
                | Some pn \<Rightarrow> Some \<lparr>state = st, place_name = pn\<rparr>))
      | _ \<Rightarrow> None)"

definition places_of :: "json \<Rightarrow> place list option" where
  "places_of js =
     (case js of
        JObj kvs \<Rightarrow>
          (case map_of kvs ''places'' of
             None \<Rightarrow> Some []
           | Some v \<Rightarrow> (case v of JArr xs \<Rightarrow> those (map place_of xs) | _ \<Rightarrow> None))
      | _ \<Rightarrow> None)"


text \<open>The body that carries exactly the place records \<open>ps\<close>.\<close>

definition place_json :: "place \<Rightarrow> json" where
  "place_json p =
     JObj ((case state p of None \<Rightarrow> [] | Some s \<Rightarrow> [(''state'', JStr s)]) @
           (case place_name p of None \<Rightarrow> [] | Some s \<Rightarrow> [(''place name'', JStr s)]))"

definition places_body :: "place list \<Rightarrow> json" where
  "places_body ps = JObj [(''places'', JArr (map place_json ps))]"

text \<open>The label the success branch yields for the place record \<open>p\<close>.\<close>

definition resolve_place :: "place \<Rightarrow> string" where
  "resolve_place p =
     region_of (strip (case state p of None \<Rightarrow> [] | Some s \<Rightarrow> s))
               (strip (case place_name p of None \<Rightarrow> [] | Some s \<Rightarrow> s))"

definition is_substring :: "string \<Rightarrow> string \<Rightarrow> bool" where
  "is_substring x s = (\<exists>a b. s = a @ x @ b)"

text \<open>The normalisation as the specification words it: the candidate label is the state
  name, else the locality name; a table entry matches when its label contains the
  candidate or the candidate contains its label, case-insensitively; without a match
  the raw candidate is returned.\<close>

definition spec_candidate :: "place \<Rightarrow> string" where
  "spec_candidate p =
     (let st = strip (case state p of None \<Rightarrow> [] | Some s \<Rightarrow> s);
          pn = strip (case place_name p of None \<Rightarrow> [] | Some s \<Rightarrow> s)
      in if st \<noteq> [] then st else pn)"

fun spec_normalize :: "region_entry list \<Rightarrow> string \<Rightarrow> string" where
  "spec_normalize [] cand = cand"
| "spec_normalize (r # rs) cand =
     (if py_in (lower cand) (lower (region_label r)) \<or> py_in (lower (region_label r)) (lower cand)
      then region_label r else spec_normalize rs cand)"

section \<open>Technician directory and matcher\<close>

record slot =
  start :: string
  end' :: string

record technician =
  id' :: string
  name :: string
  skills :: "string list"
  appliances_supported :: "string list"
  regions :: "string list"
  availability_slots :: "slot list"

definition TECHNICIANS_DATA :: "technician list" where
  "TECHNICIANS_DATA =
     [\<lparr>id' = ''tech_01'', name = ''Asha K'',
       skills = [''wm_vibration'', ''ac_leak''],
       appliances_supported = [''WashingMachine'', ''AC''],
       regions = [''Bengaluru Urban'', ''Central''],
       availability_slots =
         [\<lparr>start = ''2025-09-20T10:00:00+05:30'', end' = ''2025-09-20T12:00:00+05:30''\<rparr>,
          \<lparr>start = ''2025-09-20T15:00:00+05:30'', end' = ''2025-09-20T16:00:00+05:30''\<rparr>]\<rparr>,
      \<lparr>id' = ''tech_02'', name = ''Ravi S'',
       skills = [''fridge_cooling'', ''tv_display''],
       appliances_supported = [''Refrigerator'', ''TV''],
       regions = [''Mumbai Suburban'', ''Central''],
       availability_slots =
         [\<lparr>start = ''2025-09-21T09:00:00+05:30'', end' = ''2025-09-21T11:00:00+05:30''\<rparr>,
          \<lparr>start = ''2025-09-21T14:00:00+05:30'', end' = ''2025-09-21T16:00:00+05:30''\<rparr>]\<rparr>,
      \<lparr>id' = ''tech_03'', name = ''Priya M'',
       skills = [''ac_airflow'', ''waterpurifier_filter''],
       appliances_supported = [''AC'', ''WaterPurifier''],
       regions = [''Bengaluru Urban'', ''West''],
       availability_slots =
         [\<lparr>start = ''2025-09-22T10:30:00+05:30'', end' = ''2025-09-22T12:30:00+05:30''\<rparr>,
          \<lparr>start = ''2025-09-22T15:30:00+05:30'', end' = ''2025-09-22T17:00:00+05:30''\<rparr>]\<rparr>,
      \<lparr>id' = ''tech_04'', name = ''Anil P'',
       skills = [''wm_drum'', ''ac_cooling''],
       appliances_supported = [''WashingMachine'', ''AC''],
       regions = [''West'', ''Mumbai Suburban''],
       availability_slots =
         [\<lparr>start = ''2025-09-23T09:00:00+05:30'', end' = ''2025-09-23T11:00:00+05:30''\<rparr>,
          \<lparr>start = ''2025-09-23T13:00:00+05:30'', end' = ''2025-09-23T15:00:00+05:30''\<rparr>]\<rparr>,
      \<lparr>id' = ''tech_05'', name = ''Neha R'',
       skills = [''fridge_temp'', ''tv_sound''],
       appliances_supported = [''Refrigerator'', ''TV''],
       regions = [''Central'', ''Bengaluru Urban''],
       availability_slots =
         [\<lparr>start = ''2025-09-24T10:00:00+05:30'', end' = ''2025-09-24T12:00:00+05:30''\<rparr>,
          \<lparr>start = ''2025-09-24T15:00:00+05:30'', end' = ''2025-09-24T16:30:00+05:30''\<rparr>]\<rparr>,
      \<lparr>id' = ''tech_06'', name = ''Kiran V'',
       skills = [''waterpurifier_flow'', ''ac_noise'', ''wm_motor''],
       appliances_supported = [''WaterPurifier'', ''AC'', ''WashingMachine''],
       regions = [''West'', ''Mumbai Suburban''],
       availability_slots =
         [\<lparr>start = ''2025-09-25T09:30:00+05:30'', end' = ''2025-09-25T11:30:00+05:30''\<rparr>,
          \<lparr>start = ''2025-09-25T14:30:00+05:30'', end' = ''2025-09-25T16:30:00+05:30''\<rparr>]\<rparr>]"

text \<open>Python's truth value of an optional string: \<open>None\<close> and \<open>""\<close> are false.\<close>

definition truthy :: "string option \<Rightarrow> bool" where
  "truthy x = (case x of None \<Rightarrow> False | Some s \<Rightarrow> s \<noteq> [])"

text \<open>The \<open>for tech in TECHNICIANS_DATA\<close> loop, with \<open>matches\<close> as accumulator.\<close>

fun find_technicians_loop ::
  "technician list \<Rightarrow> string \<Rightarrow> string option \<Rightarrow> string \<Rightarrow> technician list \<Rightarrow> technician list"
where
  "find_technicians_loop [] appliance required_skill region matches = matches"
| "find_technicians_loop (tech # techs) appliance required_skill region matches =
     find_technicians_loop techs appliance required_skill region
       (if appliance \<in> set (appliances_supported tech) then
          (if region \<in> set (regions tech) then
             (if truthy required_skill then
                (case required_skill of
                   Some sk \<Rightarrow> (if sk \<in> set (skills tech) then matches @ [tech] else matches)
                 | None \<Rightarrow> matches)
              else matches @ [tech])
           else matches)
        else matches)"

definition find_technicians_for ::
  "string \<Rightarrow> string option \<Rightarrow> string \<Rightarrow> technician list"
where
  "find_technicians_for appliance required_skill region =
     find_technicians_loop TECHNICIANS_DATA appliance required_skill region []"

text \<open>The qualification test as the specification words it: the appliance is supported,
  the region is served, and the required skill is absent or among the technician's
  skills.\<close>

definition spec_qualifies :: "string \<Rightarrow> string option \<Rightarrow> string \<Rightarrow> technician \<Rightarrow> bool" where
  "spec_qualifies appliance required_skill region t =
     (appliance \<in> set (appliances_supported t) \<and> region \<in> set (regions t) \<and>
      (case required_skill of None \<Rightarrow> True | Some sk \<Rightarrow> sk \<in> set (skills t)))"

section \<open>Datetimes\<close>

text \<open>
  A \<open>datetime\<close> object holds its calendar and clock fields and, when it is aware, its
  offset from UTC (here in microseconds); a naive one has no offset. Comparison follows
  \<open>datetime._cmp\<close>: equal offsets (or two naive values) compare the fields
  lexicographically, different offsets compare the instants, and a naive value against
  an aware one raises \<open>TypeError\<close>.
\<close>

record datetime =
  year :: nat
  month :: nat
  day :: nat
  hour :: nat
  minute :: nat
  second :: nat
  microsecond :: nat
  utcoffset :: "int option"

definition is_leap :: "nat \<Rightarrow> bool" where
  "is_leap y = (y mod 4 = 0 \<and> (y mod 100 \<noteq> 0 \<or> y mod 400 = 0))"

definition days_before_year :: "nat \<Rightarrow> nat" where
  "days_before_year y' = (let y = y' - 1 in y * 365 + y div 4 - y div 100 + y div 400)"

definition days_in_month :: "nat \<Rightarrow> nat \<Rightarrow> nat" where
  "days_in_month y m =
     (if m = 2 \<and> is_leap y then 29
      else [0, 31, 28, 31, 30, 31, 30, 31, 31, 30, 31, 30, 31] ! m)"

definition days_before_month :: "nat \<Rightarrow> nat \<Rightarrow> nat" where
  "days_before_month y m =
     [0, 0, 31, 59, 90, 120, 151, 181, 212, 243, 273, 304, 334] ! m
       + (if m > 2 \<and> is_leap y then 1 else 0)"

definition toordinal :: "datetime \<Rightarrow> nat" where
  "toordinal d = days_before_year (year d) + days_before_month (year d) (month d) + day d"

text \<open>Microseconds of the wall-clock reading since the start of ordinal day 0.\<close>

definition local_microseconds :: "datetime \<Rightarrow> int" where
  "local_microseconds d =
     int ((((toordinal d * 24 + hour d) * 60 + minute d) * 60 + second d) * 1000000
          + microsecond d)"

fun lex_cmp :: "nat list \<Rightarrow> nat list \<Rightarrow> int" where
  "lex_cmp [] [] = 0"
| "lex_cmp [] (y # ys) = -1"
| "lex_cmp (x # xs) [] = 1"
| "lex_cmp (x # xs) (y # ys) = (if x < y then -1 else if y < x then 1 else lex_cmp xs ys)"

definition dt_fields :: "datetime \<Rightarrow> nat list" where
  "dt_fields d = [year d, month d, day d, hour d, minute d, second d, microsecond d]"

definition dt_cmp :: "datetime \<Rightarrow> datetime \<Rightarrow> py_error + int" where
  "dt_cmp a b =
     (if utcoffset a = utcoffset b then Inr (lex_cmp (dt_fields a) (dt_fields b))
      else case (utcoffset a, utcoffset b) of
             (Some myoff, Some otoff) \<Rightarrow>
               (let diff = (local_microseconds a - myoff) - (local_microseconds b - otoff)
                in Inr (if diff < 0 then -1 else if diff \<noteq> 0 then 1 else 0))
           | _ \<Rightarrow> Inl TypeError)"

definition dt_lt :: "datetime \<Rightarrow> datetime \<Rightarrow> py_error + bool" where
  "dt_lt a b = (case dt_cmp a b of Inl e \<Rightarrow> Inl e | Inr c \<Rightarrow> Inr (c < 0))"

definition dt_gt :: "datetime \<Rightarrow> datetime \<Rightarrow> py_error + bool" where
  "dt_gt a b = (case dt_cmp a b of Inl e \<Rightarrow> Inl e | Inr c \<Rightarrow> Inr (c > 0))"

text \<open>Python's \<open>max(a, b)\<close> keeps \<open>a\<close> unless \<open>b > a\<close>; \<open>min(a, b)\<close> keeps \<open>a\<close> unless
  \<open>b < a\<close>.\<close>

definition py_max :: "datetime \<Rightarrow> datetime \<Rightarrow> py_error + datetime" where
  "py_max a b = (case dt_gt b a of Inl e \<Rightarrow> Inl e | Inr g \<Rightarrow> Inr (if g then b else a))"

definition py_min :: "datetime \<Rightarrow> datetime \<Rightarrow> py_error + datetime" where
  "py_min a b = (case dt_lt b a of Inl e \<Rightarrow> Inl e | Inr l \<Rightarrow> Inr (if l then b else a))"

definition overlap_slot ::
  "datetime \<Rightarrow> datetime \<Rightarrow> datetime \<Rightarrow> datetime \<Rightarrow> py_error + (datetime \<times> datetime) option"
where
  "overlap_slot pref_start pref_end tech_start tech_end =
     (case py_max pref_start tech_start of
        Inl e \<Rightarrow> Inl e
      | Inr latest_start \<Rightarrow>
          (case py_min pref_end tech_end of
             Inl e \<Rightarrow> Inl e
           | Inr earliest_end \<Rightarrow>
               (case dt_lt latest_start earliest_end of
                  Inl e \<Rightarrow> Inl e
                | Inr lt \<Rightarrow> Inr (if lt then Some (latest_start, earliest_end) else None))))"

subsection \<open>Printing: \<open>datetime.isoformat()\<close>\<close>

definition digit_char :: "nat \<Rightarrow> char" where
  "digit_char n = char_of (48 + n)"

fun dec :: "nat \<Rightarrow> string" where
  "dec n = (if n < 10 then [digit_char n] else dec (n div 10) @ [digit_char (n mod 10)])"

declare dec.simps [simp del]

text \<open>\<open>zpad w n\<close> is \<open>"%0wd" % n\<close>.\<close>

definition zpad :: "nat \<Rightarrow> nat \<Rightarrow> string" where
  "zpad w n = replicate (w - length (dec n)) CHR ''0'' @ dec n"

definition format_offset :: "int option \<Rightarrow> string" where
  "format_offset off =
     (case off of
        None \<Rightarrow> []
      | Some v \<Rightarrow>
          (let sign = (if v < 0 then ''-'' else ''+'');
               a = nat \<bar>v\<bar>;
               hh = a div 3600000000;
               mm = (a mod 3600000000) div 60000000;
               ss = (a mod 60000000) div 1000000;
               us = a mod 1000000
           in sign @ zpad 2 hh @ '':'' @ zpad 2 mm
              @ (if ss \<noteq> 0 \<or> us \<noteq> 0
                 then '':'' @ zpad 2 ss @ (if us \<noteq> 0 then ''.'' @ zpad 6 us else [])
                 else [])))"

definition isoformat :: "datetime \<Rightarrow> string" where
  "isoformat d =
     zpad 4 (year d) @ ''-'' @ zpad 2 (month d) @ ''-'' @ zpad 2 (day d) @ ''T''
     @ zpad 2 (hour d) @ '':'' @ zpad 2 (minute d) @ '':'' @ zpad 2 (second d)
     @ (if microsecond d \<noteq> 0 then ''.'' @ zpad 6 (microsecond d) else [])
     @ format_offset (utcoffset d)"

subsection \<open>Parsing: \<open>datetime.fromisoformat\<close>\<close>

text \<open>
  \<open>parse_iso\<close> is the library's \<open>datetime.fromisoformat\<close>; the functions below take it as
  a parameter \<open>parse_iso :: string \<Rightarrow> datetime option\<close>, where \<open>None\<close> stands for the
  \<open>ValueError\<close> it raises. \<open>parse_iso_fixed\<close> is that function on the strings of the
  forms \<open>YYYY-MM-DDTHH:MM:SS\<close> and \<open>YYYY-MM-DDTHH:MM:SS+HH:MM\<close> (or \<open>-HH:MM\<close>), the form
  of the directory's timestamps and of \<open>isoformat\<close>'s output for whole seconds and whole
  minutes of offset; it is used to run the functions on concrete timestamps.
\<close>

definition is_digit :: "char \<Rightarrow> bool" where
  "is_digit c = (let n = code_point c in 48 \<le> n \<and> n \<le> 57)"

definition read_nat :: "string \<Rightarrow> nat option" where
  "read_nat s =
     (if s \<noteq> [] \<and> list_all is_digit s
      then Some (foldl (\<lambda>a c. 10 * a + (code_point c - 48)) 0 s) else None)"

definition parse_iso_fixed :: "string \<Rightarrow> datetime option" where
  "parse_iso_fixed s =
     (if length s = 19 \<or> length s = 25 then
        (case (read_nat (take 4 s), read_nat (take 2 (drop 5 s)), read_nat (take 2 (drop 8 s)),
               read_nat (take 2 (drop 11 s)), read_nat (take 2 (drop 14 s)),
               read_nat (take 2 (drop 17 s))) of
           (Some y, Some mo, Some d, Some h, Some mi, Some se) \<Rightarrow>
             (if s ! 4 = CHR ''-'' \<and> s ! 7 = CHR ''-'' \<and> s ! 10 = CHR ''T''
                 \<and> s ! 13 = CHR '':'' \<and> s ! 16 = CHR '':''
                 \<and> 1 \<le> y \<and> 1 \<le> mo \<and> mo \<le> 12 \<and> 1 \<le> d \<and> d \<le> days_in_month y mo
                 \<and> h < 24 \<and> mi < 60 \<and> se < 60
              then
                (let naive = \<lparr>year = y, month = mo, day = d, hour = h, minute = mi,
                              second = se, microsecond = 0, utcoffset = None\<rparr>
                 in if length s = 19 then Some naive
                    else (case (read_nat (take 2 (drop 20 s)), read_nat (take 2 (drop 23 s))) of
                            (Some oh, Some om) \<Rightarrow>
                              (if (s ! 19 = CHR ''+'' \<or> s ! 19 = CHR ''-'') \<and> s ! 22 = CHR '':''
                                  \<and> oh < 24 \<and> om < 60
                               then Some (naive\<lparr>utcoffset :=
                                      Some ((if s ! 19 = CHR ''-'' then -1 else 1)
                                            * int ((oh * 3600 + om * 60) * 1000000))\<rparr>)
                               else None)
                          | _ \<Rightarrow> None))
              else None)
         | _ \<Rightarrow> None)
      else None)"

section \<open>Slot proposals\<close>

text \<open>A JSON object with string values: its key/value pairs, each key once.\<close>

type_synonym json_object = "(string \<times> string) list"

definition dict_get :: "json_object \<Rightarrow> string \<Rightarrow> string option" where
  "dict_get d k = map_of d k"

record proposal = slot +
  technician_id :: string

text \<open>How a loop body that may \<open>return\<close> leaves the loop: \<open>Return v\<close> is the function
  returning \<open>v\<close>, \<open>Next v\<close> is the loop running to its end with \<open>proposals = v\<close>.\<close>

datatype flow = Return "proposal list" | Next "proposal list"

text \<open>The inner \<open>for ts in tech["availability_slots"]\<close> loop for one parsed preference.\<close>

fun overlap_inner ::
  "(string \<Rightarrow> datetime option) \<Rightarrow> string \<Rightarrow> datetime \<Rightarrow> datetime \<Rightarrow> int \<Rightarrow>
     slot list \<Rightarrow> proposal list \<Rightarrow> py_error + flow"
where
  "overlap_inner parse_iso tid pref_start pref_end max_proposals [] proposals =
     Inr (Next proposals)"
| "overlap_inner parse_iso tid pref_start pref_end max_proposals (ts # rest) proposals =
     (case parse_iso (start ts) of
        None \<Rightarrow> overlap_inner parse_iso tid pref_start pref_end max_proposals rest proposals
      | Some tech_start \<Rightarrow>
          (case parse_iso (end' ts) of
             None \<Rightarrow> overlap_inner parse_iso tid pref_start pref_end max_proposals rest proposals
           | Some tech_end \<Rightarrow>
               (case overlap_slot pref_start pref_end tech_start tech_end of
                  Inl e \<Rightarrow> Inl e
                | Inr None \<Rightarrow>
                    overlap_inner parse_iso tid pref_start pref_end max_proposals rest proposals
                | Inr (Some ov) \<Rightarrow>
                    (let proposals' = proposals @
                           [\<lparr>start = isoformat (fst ov), end' = isoformat (snd ov),
                             technician_id = tid\<rparr>]
                     in if int (length proposals') \<ge> max_proposals
                        then Inr (Return proposals')
                        else overlap_inner parse_iso tid pref_start pref_end max_proposals
                               rest proposals'))))"

text \<open>The outer \<open>for pref in customer_pref_slots\<close> loop. A preference whose \<open>start\<close> or
  \<open>end\<close> is missing or does not parse is skipped (\<open>except Exception: continue\<close>).\<close>

fun overlap_outer ::
  "(string \<Rightarrow> datetime option) \<Rightarrow> technician \<Rightarrow> int \<Rightarrow> json_object list \<Rightarrow>
     proposal list \<Rightarrow> py_error + flow"
where
  "overlap_outer parse_iso tech max_proposals [] proposals = Inr (Next proposals)"
| "overlap_outer parse_iso tech max_proposals (pref # rest) proposals =
     (case Option.bind (dict_get pref ''start'') parse_iso of
        None \<Rightarrow> overlap_outer parse_iso tech max_proposals rest proposals
      | Some pref_start \<Rightarrow>
          (case Option.bind (dict_get pref ''end'') parse_iso of
             None \<Rightarrow> overlap_outer parse_iso tech max_proposals rest proposals
           | Some pref_end \<Rightarrow>
               (case overlap_inner parse_iso (id' tech) pref_start pref_end max_proposals
                       (availability_slots tech) proposals of
                  Inl e \<Rightarrow> Inl e
                | Inr (Return v) \<Rightarrow> Inr (Return v)
                | Inr (Next v) \<Rightarrow> overlap_outer parse_iso tech max_proposals rest v)))"

text \<open>The second loop, which appends the technician's own slots until the \<open>break\<close>.\<close>

fun raw_slots_loop :: "string \<Rightarrow> int \<Rightarrow> slot list \<Rightarrow> proposal list \<Rightarrow> proposal list" where
  "raw_slots_loop tid max_proposals [] proposals = proposals"
| "raw_slots_loop tid max_proposals (ts # rest) proposals =
     (let proposals' = proposals @ [\<lparr>start = start ts, end' = end' ts, technician_id = tid\<rparr>]
      in if int (length proposals') \<ge> max_proposals then proposals'
         else raw_slots_loop tid max_proposals rest proposals')"

definition propose_slots ::
  "(string \<Rightarrow> datetime option) \<Rightarrow> technician \<Rightarrow> json_object list \<Rightarrow> int \<Rightarrow>
     py_error + proposal list"
where
  "propose_slots parse_iso tech customer_pref_slots max_proposals =
     (case overlap_outer parse_iso tech max_proposals customer_pref_slots [] of
        Inl e \<Rightarrow> Inl e
      | Inr (Return v) \<Rightarrow> Inr v
      | Inr (Next v) \<Rightarrow>
          Inr (raw_slots_loop (id' tech) max_proposals (availability_slots tech) v))"

section \<open>Validation helpers\<close>

text \<open>
  The three patterns are sequences of quantified character classes, matched from the
  start of the string (\<open>re.match\<close>) up to \<open>$\<close>, which stands at the end of the string or
  before a final newline. An item \<open>(P, lo, hi)\<close> is the class \<open>P\<close> repeated at least \<open>lo\<close>
  and, when \<open>hi\<close> is given, at most \<open>hi\<close> times.
\<close>

type_synonym rx_item = "(char \<Rightarrow> bool) \<times> nat \<times> nat option"

fun rx_match :: "rx_item list \<Rightarrow> string \<Rightarrow> bool" where
  "rx_match [] s = (s = [] \<or> s = [CHR 0x0A])"
| "rx_match (item # items) s =
     (case item of (P, lo, hi) \<Rightarrow>
        list_ex (\<lambda>n. list_all P (take n s) \<and> rx_match items (drop n s))
          [lo ..< Suc (case hi of None \<Rightarrow> length s | Some h \<Rightarrow> min h (length s))])"

definition is_word :: "char \<Rightarrow> bool" where
  "is_word c =
     (let n = code_point c
      in (48 \<le> n \<and> n \<le> 57) \<or> (65 \<le> n \<and> n \<le> 90) \<or> n = 95 \<or> (97 \<le> n \<and> n \<le> 122)
         \<or> n = 170 \<or> n = 178 \<or> n = 179 \<or> n = 181 \<or> n = 185 \<or> n = 186
         \<or> (188 \<le> n \<and> n \<le> 190) \<or> (192 \<le> n \<and> n \<le> 214) \<or> (216 \<le> n \<and> n \<le> 246)
         \<or> 248 \<le> n)"

definition PHONE_RE :: "rx_item list" where
  "PHONE_RE = [(\<lambda>c. c \<in> set ''6789'', 1, Some 1), (is_digit, 9, Some 9)]"

definition EMAIL_RE :: "rx_item list" where
  "EMAIL_RE =
     [(\<lambda>c. is_word c \<or> c = CHR ''.'' \<or> c = CHR ''-'', 1, None),
      (\<lambda>c. c = CHR ''@'', 1, Some 1),
      (\<lambda>c. is_word c \<or> c = CHR ''.'' \<or> c = CHR ''-'', 1, None),
      (\<lambda>c. c = CHR ''.'', 1, Some 1),
      (is_word, 2, None)]"

definition validate_phone :: "string \<Rightarrow> bool" where
  "validate_phone phone = rx_match PHONE_RE (filter is_digit phone)"

definition validate_email :: "string \<Rightarrow> bool" where
  "validate_email email = rx_match EMAIL_RE (strip email)"

section \<open>In-memory persistence and the intent handlers\<close>

record customer =
  full_name :: string
  phone :: string
  email :: string
  address_text :: string
  pincode :: string
  region_label :: string
  preferred_time_slots :: "json_object list"

record job =
  request_type :: string
  appliance_type :: string
  model_if_known :: string
  fault_symptoms :: "string list"
  installation_details :: "string list"
  urgency :: string
  customer_id :: string

datatype appointment_status = Confirmed | Rescheduled | Cancelled

text \<open>An appointment dictionary. The keys written only by some handlers are optional;
  \<open>slot_start\<close> and \<open>slot_end\<close> hold the result of \<open>.get\<close> on the requested slot.\<close>

record appointment =
  customer_id :: string
  customer_name :: string
  phone :: string
  email :: string
  address_text :: string
  pincode :: string
  region_label :: string
  appliance_type :: string
  fault_symptoms :: "string list"
  technician_id :: string
  slot_start :: "string option"
  slot_end :: "string option"
  status :: appointment_status
  job_id :: string
  created_at :: string
  ticket_id :: "string option"
  crm_id :: "string option"
  calendar_id :: "string option"
  rescheduled_at :: "string option"
  cancel_reason :: "string option"
  cancelled_at :: "string option"

record store =
  CUSTOMERS :: "string \<rightharpoonup> customer"
  JOBS :: "string \<rightharpoonup> job"
  APPOINTMENTS :: "string \<rightharpoonup> appointment"

text \<open>The JSON bodies the handlers answer with; each is paired with its status code.\<close>

datatype reply =
    Error string
  | Booking_ok string appointment
  | Reschedule_ok string appointment
  | Reschedule_no string slot
  | Cancel_ok string
  | Contact_ok customer

text \<open>\<open>uuid_hex\<close> is the value of \<open>uuid.uuid4().hex\<close>, \<open>now\<close> that of
  \<open>datetime.now(timezone.utc).isoformat()\<close>; both come from the environment.\<close>

definition persist_appointment :: "store \<Rightarrow> string \<Rightarrow> appointment \<Rightarrow> store \<times> string" where
  "persist_appointment s uuid_hex appt =
     (let ticket = ''TK-'' @ take 8 uuid_hex
      in (s\<lparr>APPOINTMENTS := (APPOINTMENTS s)(ticket \<mapsto> appt)\<rparr>, ticket))"

definition create_crm_ticket :: "appointment \<Rightarrow> string" where
  "create_crm_ticket appt = ''CRM-PLACEHOLDER''"

definition sync_calendar :: "appointment \<Rightarrow> string" where
  "sync_calendar appt = ''CAL-PLACEHOLDER''"

definition confirm_booking ::
  "store \<Rightarrow> string \<Rightarrow> string \<Rightarrow> string option \<Rightarrow> string option \<Rightarrow> json_object option \<Rightarrow>
     string option \<Rightarrow> store \<times> reply \<times> nat"
where
  "confirm_booking s uuid_hex now customer_id_p job_id_p chosen_slot technician_id_p =
     (case (customer_id_p, job_id_p, chosen_slot, technician_id_p) of
        (Some cid, Some jid, Some chosen, Some tid) \<Rightarrow>
          (if cid = [] \<or> jid = [] \<or> chosen = [] \<or> tid = [] then
             (s, Error ''customer_id, job_id, chosen_slot, technician_id required'', 400)
           else
             (case (CUSTOMERS s cid, JOBS s jid) of
                (Some cust, Some jb) \<Rightarrow>
                  (let appt = \<lparr>customer_id = cid,
                               customer_name = full_name cust,
                               phone = customer.phone cust,
                               email = customer.email cust,
                               address_text = customer.address_text cust,
                               pincode = customer.pincode cust,
                               region_label = customer.region_label cust,
                               appliance_type = job.appliance_type jb,
                               fault_symptoms = job.fault_symptoms jb,
                               technician_id = tid,
                               slot_start = dict_get chosen ''start'',
                               slot_end = dict_get chosen ''end'',
                               status = Confirmed,
                               job_id = jid,
                               created_at = now,
                               ticket_id = None, crm_id = None, calendar_id = None,
                               rescheduled_at = None, cancel_reason = None,
                               cancelled_at = None\<rparr>;
                       (s1, ticket) = persist_appointment s uuid_hex appt;
                       crm = create_crm_ticket appt;
                       cal = sync_calendar appt;
                       appt' = appt\<lparr>ticket_id := Some ticket, crm_id := Some crm,
                                     calendar_id := Some cal\<rparr>
                   in (s1\<lparr>APPOINTMENTS := (APPOINTMENTS s1)(ticket \<mapsto> appt')\<rparr>,
                       Booking_ok ticket appt', 200))
              | _ \<Rightarrow> (s, Error ''invalid customer_id or job_id'', 400)))
      | _ \<Rightarrow> (s, Error ''customer_id, job_id, chosen_slot, technician_id required'', 400))"

text \<open>The equality check of the requested slot against the technician's slots.\<close>

fun slot_matches :: "slot list \<Rightarrow> json_object \<Rightarrow> bool" where
  "slot_matches [] new_slot = False"
| "slot_matches (ts # rest) new_slot =
     (if Some (start ts) = dict_get new_slot ''start'' \<and> Some (end' ts) = dict_get new_slot ''end''
      then True else slot_matches rest new_slot)"

definition reschedule ::
  "store \<Rightarrow> string \<Rightarrow> string option \<Rightarrow> json_object option \<Rightarrow> py_error + store \<times> reply \<times> nat"
where
  "reschedule s now ticket_id_p new_slot_p =
     (case (ticket_id_p, new_slot_p) of
        (Some tk, Some new_slot) \<Rightarrow>
          (if tk = [] \<or> new_slot = [] then
             Inr (s, Error ''ticket_id and new_slot required'', 400)
           else
             (case APPOINTMENTS s tk of
                None \<Rightarrow> Inr (s, Error ''ticket not found'', 404)
              | Some appt \<Rightarrow>
                  (case find (\<lambda>t. id' t = technician_id appt) TECHNICIANS_DATA of
                     None \<Rightarrow> Inr (s, Error ''technician not found'', 404)
                   | Some tech \<Rightarrow>
                       (if \<not> slot_matches (availability_slots tech) new_slot then
                          (case availability_slots tech of
                             [] \<Rightarrow> Inl IndexError
                           | alt # _ \<Rightarrow>
                               Inr (s, Reschedule_no ''requested slot not available'' alt, 200))
                        else
                          (let appt' = appt\<lparr>slot_start := dict_get new_slot ''start'',
                                            slot_end := dict_get new_slot ''end'',
                                            status := Rescheduled,
                                            rescheduled_at := Some now\<rparr>
                           in Inr (s\<lparr>APPOINTMENTS := (APPOINTMENTS s)(tk \<mapsto> appt')\<rparr>,
                                   Reschedule_ok tk appt', 200))))))
      | _ \<Rightarrow> Inr (s, Error ''ticket_id and new_slot required'', 400))"

definition cancel ::
  "store \<Rightarrow> string \<Rightarrow> string option \<Rightarrow> string option \<Rightarrow> store \<times> reply \<times> nat"
where
  "cancel s now ticket_id_p reason_p =
     (let reason = (case reason_p of None \<Rightarrow> [] | Some r \<Rightarrow> r)
      in case ticket_id_p of
           None \<Rightarrow> (s, Error ''ticket_id required'', 400)
         | Some tk \<Rightarrow>
             (if tk = [] then (s, Error ''ticket_id required'', 400)
              else
                (case APPOINTMENTS s tk of
                   None \<Rightarrow> (s, Error ''ticket not found'', 404)
                 | Some appt \<Rightarrow>
                     (let appt' = appt\<lparr>status := Cancelled,
                                       cancel_reason := Some reason,
                                       cancelled_at := Some now\<rparr>
                      in (s\<lparr>APPOINTMENTS := (APPOINTMENTS s)(tk \<mapsto> appt')\<rparr>,
                          Cancel_ok tk, 200)))))"

definition update_contact ::
  "store \<Rightarrow> string option \<Rightarrow> string option \<Rightarrow> string option \<Rightarrow> store \<times> reply \<times> nat"
where
  "update_contact s customer_id_p phone_p email_p =
     (case customer_id_p of
        None \<Rightarrow> (s, Error ''customer_id required'', 400)
      | Some cid \<Rightarrow>
          (if cid = [] then (s, Error ''customer_id required'', 400)
           else
             (case CUSTOMERS s cid of
                None \<Rightarrow> (s, Error ''customer not found'', 404)
              | Some cust \<Rightarrow>
                  (let ph = (case phone_p of None \<Rightarrow> [] | Some v \<Rightarrow> v);
                       em = (case email_p of None \<Rightarrow> [] | Some v \<Rightarrow> v)
                   in if ph \<noteq> [] \<and> \<not> validate_phone ph then (s, Error ''invalid phone'', 400)
                      else
                        (let cust1 = (if ph \<noteq> [] then cust\<lparr>customer.phone := ph\<rparr> else cust);
                             s1 = s\<lparr>CUSTOMERS := (CUSTOMERS s)(cid \<mapsto> cust1)\<rparr>
                         in if em \<noteq> [] \<and> \<not> validate_email em
                            then (s1, Error ''invalid email'', 400)
                            else
                              (let cust2 = (if em \<noteq> [] then cust1\<lparr>customer.email := em\<rparr>
                                            else cust1)
                               in (s1\<lparr>CUSTOMERS := (CUSTOMERS s1)(cid \<mapsto> cust2)\<rparr>,
                                   Contact_ok cust2, 200)))))))"

section \<open>Sample environments\<close>

text \<open>A lookup service that is down for the first \<open>n\<close> calls and then answers with the
  single place \<open>p\<close>.\<close>

definition answers_after :: "nat \<Rightarrow> place \<Rightarrow> nat \<Rightarrow> http_outcome" where
  "answers_after n p k =
     (if k < n then RequestException else Response 200 (places_body [p]))"


section \<open>Properties of the region resolver\<close>

lemma startswith_iff: "startswith s p \<longleftrightarrow> (\<exists>b. s = p @ b)"
  unfolding startswith_def
  by (metis append_eq_conv_conj append_take_drop_id)

lemma py_in_iff: "py_in x s \<longleftrightarrow> is_substring x s"
proof (induction s)
  case Nil
  show ?case by (simp add: is_substring_def)
next
  case (Cons c s)
  have "is_substring x (c # s) \<longleftrightarrow> (\<exists>b. c # s = x @ b) \<or> is_substring x s"
    unfolding is_substring_def
    by (auto simp: Cons_eq_append_conv)
  with Cons show ?case by (simp add: startswith_iff)
qed

lemma map_to_cached_find:
  "map_to_cached rs st pn =
     map_option region_entry.region_label
       (find (\<lambda>r. is_substring (lower (region_entry.region_label r)) (lower st)
                \<or> is_substring (lower (region_entry.region_label r)) (lower pn)) rs)"
  by (induction rs) (simp_all add: py_in_iff Let_def)









lemma place_of_fields:
  assumes "place_of x = Some p"
  obtains kvs where "x = JObj kvs" "text_field kvs ''state'' = Some (state p)"
    "text_field kvs ''place name'' = Some (place_name p)"
  using assms by (auto simp: place_of_def split: json.splits option.splits)

lemma read_field:
  assumes "text_field kvs key = Some f"
  shows "\<exists>v. json_get (JObj kvs) key (JStr []) = Inr v \<and>
             json_strip v = Inr (strip (case f of None \<Rightarrow> [] | Some s \<Rightarrow> s))"
  using assms by (auto simp: text_field_def split: option.splits json.splits)

lemma attempt_once_first:
  assumes "json_get js ''places'' (JArr []) = Inr (JArr (x # xs))" and "place_of x = Some p"
  shows "attempt_once (Response 200 js) = Inr (Some (resolve_place p))"
proof -
  from assms(2) obtain kvs where x: "x = JObj kvs"
    and s: "text_field kvs ''state'' = Some (state p)"
    and n: "text_field kvs ''place name'' = Some (place_name p)"
    by (rule place_of_fields)
  from read_field [OF s] obtain sv where
    sv: "json_get (JObj kvs) ''state'' (JStr []) = Inr sv"
        "json_strip sv = Inr (strip (case state p of None \<Rightarrow> [] | Some s \<Rightarrow> s))"
    by blast
  from read_field [OF n] obtain pv where
    pv: "json_get (JObj kvs) ''place name'' (JStr []) = Inr pv"
        "json_strip pv = Inr (strip (case place_name p of None \<Rightarrow> [] | Some s \<Rightarrow> s))"
    by blast
  show ?thesis
    unfolding attempt_once_def resolve_place_def
    by (simp add: assms(1) x sv pv del: json_get.simps)
qed

lemma attempt_once_places:
  assumes "places_of js = Some ps"
  shows "attempt_once (Response 200 js) =
           Inr (case ps of [] \<Rightarrow> None | p # _ \<Rightarrow> Some (resolve_place p))"
proof -
  from assms obtain kvs where js: "js = JObj kvs"
    by (auto simp: places_of_def split: json.splits)
  show ?thesis
  proof (cases "map_of kvs ''places''")
    case None
    with assms js have "ps = []" by (simp add: places_of_def)
    with None js show ?thesis by (simp add: attempt_once_def)
  next
    case (Some v)
    with assms js obtain xs where v: "v = JArr xs" and t: "those (map place_of xs) = Some ps"
      by (auto simp: places_of_def split: json.splits)
    show ?thesis
    proof (cases xs)
      case Nil
      with t have "ps = []" by simp
      with Some v Nil js show ?thesis by (simp add: attempt_once_def)
    next
      case (Cons x xs')
      with t obtain p ps' where p: "place_of x = Some p" and ps: "ps = p # ps'"
        by (auto split: option.splits)
      have g: "json_get js ''places'' (JArr []) = Inr (JArr (x # xs'))"
        using Some v Cons js by simp
      show ?thesis
        unfolding ps using attempt_once_first [OF g p] by simp
    qed
  qed
qed



lemma lookup_attempts_first:
  assumes "int k \<le> retries" and "attempt_once (fetch k) = Inr (Some l)"
    and "\<forall>j<k. attempt_once (fetch j) = Inr None"
  shows "a \<le> k \<Longrightarrow> lookup_attempts fetch retries a = Inr (Some l)"
proof (induction "k - a" arbitrary: a)
  case 0
  then have "a = k" by simp
  with assms(1,2) show ?case by (subst lookup_attempts.simps) simp
next
  case (Suc d)
  then have lt: "a < k" by simp
  with assms(1) have le: "int a \<le> retries" by simp
  from lt assms(3) have n: "attempt_once (fetch a) = Inr None" by simp
  from Suc have "lookup_attempts fetch retries (a + 1) = Inr (Some l)" by simp
  with le n show ?case by (subst lookup_attempts.simps) simp
qed




text \<open>
  C8 (as stated, refuted). With state \<open>"Bengaluru"\<close> the specification's normalisation
  finds the table label \<open>"Bengaluru Urban"\<close>, which contains the candidate, and returns
  it; the resolver looks only for table labels contained in the state or the place name,
  finds none and returns the raw state \<open>"Bengaluru"\<close>.
\<close>

theorem normalization_counterexample:
  "lookup_region
     (answers_after 0 \<lparr>state = Some ''Bengaluru'', place_name = Some ''Koramangala''\<rparr>)
     ''560034'' 2 = Inr ''Bengaluru'' \<and>
   spec_normalize REGIONS_CACHE
     (spec_candidate \<lparr>state = Some ''Bengaluru'', place_name = Some ''Koramangala''\<rparr>)
     = ''Bengaluru Urban''"
  by code_simp

text \<open>
  C8 (amended). When the first successful lookup (attempt \<open>k\<close>, within the retry budget,
  the earlier attempts having failed) answers with a body whose first place record is
  \<open>p\<close>, the resolver returns the label of the first table entry whose lower-cased label
  is a substring of the lower-cased, stripped state name or of the lower-cased, stripped
  place name of \<open>p\<close>; when no entry qualifies it returns the state name, else the place
  name, else \<open>"Unknown"\<close>.
\<close>

theorem lookup_region_live_label:
  assumes "int k \<le> retries" and "fetch k = Response 200 js"
    and "places_of js = Some (p # ps)"
    and "\<forall>j<k. attempt_once (fetch j) = Inr None"
  shows "lookup_region fetch pin retries =
     Inr (let st = strip (case state p of None \<Rightarrow> [] | Some s \<Rightarrow> s);
              pn = strip (case place_name p of None \<Rightarrow> [] | Some s \<Rightarrow> s)
          in case find (\<lambda>r. is_substring (lower (region_entry.region_label r)) (lower st)
                          \<or> is_substring (lower (region_entry.region_label r)) (lower pn))
                    REGIONS_CACHE of
               Some r \<Rightarrow> region_entry.region_label r
             | None \<Rightarrow> (if st \<noteq> [] then st else if pn \<noteq> [] then pn else ''Unknown''))"
proof -
  have lr: "attempt_once (fetch k) = Inr (Some (resolve_place p))"
    using attempt_once_places [OF assms(3)] assms(2) by simp
  have "lookup_attempts fetch retries 0 = Inr (Some (resolve_place p))"
    using lookup_attempts_first [OF assms(1) lr assms(4)] by simp
  then have "lookup_region fetch pin retries = Inr (resolve_place p)"
    by (simp add: lookup_region_def)
  then show ?thesis
    by (simp add: resolve_place_def region_of_def map_to_cached_find Let_def
             split: option.splits)
qed

theorem lookup_region_live_label_witness:
  "int 1 \<le> 2 \<and>
   answers_after 1 \<lparr>state = Some ''NCT of Delhi'', place_name = Some ''Connaught Place''\<rparr> 1
     = Response 200
         (places_body [\<lparr>state = Some ''NCT of Delhi'', place_name = Some ''Connaught Place''\<rparr>]) \<and>
   places_of
     (places_body [\<lparr>state = Some ''NCT of Delhi'', place_name = Some ''Connaught Place''\<rparr>])
     = Some [\<lparr>state = Some ''NCT of Delhi'', place_name = Some ''Connaught Place''\<rparr>] \<and>
   lookup_region
     (answers_after 1 \<lparr>state = Some ''NCT of Delhi'', place_name = Some ''Connaught Place''\<rparr>)
     ''110001'' 2 = Inr ''Delhi''"
proof -
  let ?p = "\<lparr>state = Some ''NCT of Delhi'', place_name = Some ''Connaught Place''\<rparr>"
  have h1: "int 1 \<le> 2" by simp
  have h2: "answers_after 1 ?p 1 = Response 200 (places_body [?p])"
    by (simp add: answers_after_def)
  have h3: "places_of (places_body [?p]) = Some (?p # [])"
    by (simp add: places_body_def place_json_def places_of_def place_of_def text_field_def)
  have h4: "\<forall>j<1. attempt_once (answers_after 1 ?p j) = Inr None"
    by (simp add: answers_after_def attempt_once_def)
  note t = lookup_region_live_label [OF h1 h2 h3 h4, of "''110001''"]
  have v: "lookup_region (answers_after 1 ?p) ''110001'' 2 = Inr ''Delhi''"
    by code_simp
  from h1 h2 h3 v t show ?thesis by blast
qed

section \<open>Properties of the technician matcher\<close>

lemma find_technicians_loop_filter:
  "find_technicians_loop techs appliance required_skill region matches =
     matches @ filter (\<lambda>t. appliance \<in> set (appliances_supported t) \<and> region \<in> set (regions t)
                          \<and> (case required_skill of None \<Rightarrow> True
                              | Some sk \<Rightarrow> sk = [] \<or> sk \<in> set (skills t))) techs"
  by (induction techs arbitrary: matches) (auto simp: truthy_def split: option.splits)

text \<open>
  C5 (as stated, refuted). With the empty string as required skill, which is present and
  in no technician's skill set, the specification's three predicates hold of no
  technician, while \<open>find_technicians_for\<close> skips the skill test and returns \<open>tech_01\<close>
  and \<open>tech_03\<close> for \<open>"AC"\<close> in \<open>"Bengaluru Urban"\<close>.
\<close>

theorem find_technicians_for_empty_skill:
  "map id' (find_technicians_for ''AC'' (Some '''') ''Bengaluru Urban'')
     = [''tech_01'', ''tech_03''] \<and>
   filter (spec_qualifies ''AC'' (Some '''') ''Bengaluru Urban'') TECHNICIANS_DATA = []"
  by code_simp

text \<open>
  C5 (amended). \<open>find_technicians_for\<close> returns exactly the technicians of the directory,
  in directory order, whose supported appliances contain the appliance, whose regions
  contain the region label, and whose skills contain the required skill unless that is
  absent or the empty string (which Python's truth test treats alike). For \<open>"AC"\<close>,
  \<open>"Bengaluru Urban"\<close> and no required skill the result is \<open>tech_01\<close> then \<open>tech_03\<close>;
  when no technician qualifies the result is the empty list.
\<close>

theorem find_technicians_for_filter:
  "find_technicians_for appliance required_skill region =
     filter (\<lambda>t. appliance \<in> set (appliances_supported t) \<and> region \<in> set (regions t)
                 \<and> (case required_skill of None \<Rightarrow> True
                     | Some sk \<Rightarrow> sk = [] \<or> sk \<in> set (skills t))) TECHNICIANS_DATA \<and>
   map id' (find_technicians_for ''AC'' None ''Bengaluru Urban'') = [''tech_01'', ''tech_03''] \<and>
   ((\<forall>t\<in>set TECHNICIANS_DATA.
        \<not> (appliance \<in> set (appliances_supported t) \<and> region \<in> set (regions t)
           \<and> (case required_skill of None \<Rightarrow> True
               | Some sk \<Rightarrow> sk = [] \<or> sk \<in> set (skills t))))
    \<longrightarrow> find_technicians_for appliance required_skill region = [])"
proof -
  have a: "find_technicians_for appliance required_skill region =
     filter (\<lambda>t. appliance \<in> set (appliances_supported t) \<and> region \<in> set (regions t)
                 \<and> (case required_skill of None \<Rightarrow> True
                     | Some sk \<Rightarrow> sk = [] \<or> sk \<in> set (skills t))) TECHNICIANS_DATA"
    by (simp add: find_technicians_for_def find_technicians_loop_filter)
  have b: "map id' (find_technicians_for ''AC'' None ''Bengaluru Urban'')
             = [''tech_01'', ''tech_03'']"
    by code_simp
  have c: "(\<forall>t\<in>set TECHNICIANS_DATA.
        \<not> (appliance \<in> set (appliances_supported t) \<and> region \<in> set (regions t)
           \<and> (case required_skill of None \<Rightarrow> True
               | Some sk \<Rightarrow> sk = [] \<or> sk \<in> set (skills t))))
    \<longrightarrow> find_technicians_for appliance required_skill region = []"
    unfolding a by (simp add: filter_empty_conv)
  from a b c show ?thesis by blast
qed

theorem find_technicians_for_filter_witness:
  "find_technicians_for ''Dishwasher'' (Some ''ac_leak'') ''Central'' = [] \<and>
   map id' (find_technicians_for ''AC'' (Some ''ac_leak'') ''Central'') = [''tech_01'']"
proof -
  have h: "\<forall>t\<in>set TECHNICIANS_DATA.
        \<not> (''Dishwasher'' \<in> set (appliances_supported t) \<and> ''Central'' \<in> set (regions t)
           \<and> (case Some ''ac_leak'' of None \<Rightarrow> True
               | Some sk \<Rightarrow> sk = [] \<or> sk \<in> set (skills t)))"
    by (simp add: TECHNICIANS_DATA_def)
  have e: "find_technicians_for ''Dishwasher'' (Some ''ac_leak'') ''Central'' = []"
    using find_technicians_for_filter [of "''Dishwasher''" "Some ''ac_leak''" "''Central''"] h
    by blast
  have v: "map id' (find_technicians_for ''AC'' (Some ''ac_leak'') ''Central'') = [''tech_01'']"
    by code_simp
  from e v show ?thesis by blast
qed

end
